theory Spec2Isabelle
  imports Main
begin

section \<open>Dotted rendering of integers, strings, containers and tuples\<close>

text \<open>
  The program is one overloaded function template \<^verbatim>\<open>print_ip\<close> (file
  \<^verbatim>\<open>source/print_ip.cpp\<close>). Every overload writes one line to \<^verbatim>\<open>std::cout\<close>.
  The stream is modelled by the characters written to it so far; an overload takes the
  stream and returns it extended. A call that the compiler rejects, or whose behaviour
  the language leaves undefined, returns a \<open>failure\<close> instead of a stream.
\<close>

subsection \<open>The output stream\<close>

type_synonym ostream = string

datatype build_error =
    Static_Assertion string  \<comment> \<open>a \<^verbatim>\<open>static_assert\<close> fired, with its message\<close>
  | Incomplete_Type string   \<comment> \<open>a class template that is declared but not defined was used\<close>

datatype failure =
    Build_Error build_error  \<comment> \<open>the call does not compile: nothing runs\<close>
  | Undefined_Behaviour      \<comment> \<open>the call runs outside the rules of the language\<close>

definition newline :: string where
  "newline = [CHR 0x0A]"

text \<open>\<^verbatim>\<open>std::cout << std::endl\<close>: the line terminator (the flush is not visible in the text).\<close>

definition endl :: "ostream \<Rightarrow> ostream" where
  "endl out = out @ newline"

text \<open>\<^verbatim>\<open>std::cout << s\<close> for a string or a string literal.\<close>

definition put_string :: "string \<Rightarrow> ostream \<Rightarrow> ostream" where
  "put_string s out = out @ s"

text \<open>Decimal digits of a natural number, most significant first, as the stream's
  default (\<^verbatim>\<open>std::dec\<close>) formatting of an integer prints them.\<close>

definition digit_char :: "nat \<Rightarrow> char" where
  "digit_char d = ''0123456789'' ! d"

function show_nat :: "nat \<Rightarrow> string" where
  "show_nat n = (if n < 10 then [digit_char n] else show_nat (n div 10) @ [digit_char (n mod 10)])"
  by pat_completeness auto
termination
  by (relation "measure (\<lambda>n. n)") auto

declare show_nat.simps [simp del]

definition show_int :: "int \<Rightarrow> string" where
  "show_int i = (if i < 0 then CHR ''-'' # show_nat (nat (- i)) else show_nat (nat i))"

text \<open>\<^verbatim>\<open>std::cout << x\<close> for \<open>x\<close> of type \<^verbatim>\<open>std::uint16_t\<close>.\<close>

definition put_uint16 :: "int \<Rightarrow> ostream \<Rightarrow> ostream" where
  "put_uint16 x out = out @ show_nat (nat x)"

subsection \<open>Integral types\<close>

text \<open>
  The integral overload is instantiated at a type \<open>T\<close> with \<^verbatim>\<open>std::is_integral<T>\<close>.
  Such a type is described by its kind and its \<^verbatim>\<open>sizeof\<close> in bytes; a value of the
  type is the mathematical integer it holds. \<^verbatim>\<open>std::uint8_t\<close> exists, so a byte has
  8 bits.
\<close>

datatype int_kind = Bool_kind | Char_kind | Signed_kind | Unsigned_kind

datatype integral_type = Integral int_kind nat

fun sizeof :: "integral_type \<Rightarrow> nat" where
  "sizeof (Integral k n) = n"

text \<open>
  \<^verbatim>\<open>std::make_unsigned_t<T>\<close> of the standard library: the unsigned integer type of
  the same size. It is not defined for \<^verbatim>\<open>bool\<close> (C++17 [meta.trans.sign]: \<open>T\<close> shall be
  an integral or enumeration type but not a bool type; the library implementations
  declare \<^verbatim>\<open>make_unsigned<bool>\<close> without defining it), so naming it there does
  not compile.
\<close>

fun make_unsigned :: "integral_type \<Rightarrow> integral_type option" where
  "make_unsigned (Integral Bool_kind n) = None"
| "make_unsigned (Integral k n) = Some (Integral Unsigned_kind n)"

text \<open>\<^verbatim>\<open>static_cast<U>(x)\<close> to an unsigned type \<open>U\<close>: the value modulo \<open>2 ^ bits\<close>.\<close>

definition static_cast :: "integral_type \<Rightarrow> int \<Rightarrow> int" where
  "static_cast U x = x mod 2 ^ (8 * sizeof U)"

abbreviation uint8_t :: integral_type where
  "uint8_t \<equiv> Integral Unsigned_kind 1"

abbreviation uint16_t :: integral_type where
  "uint16_t \<equiv> Integral Unsigned_kind 2"

text \<open>\<^verbatim>\<open>x >> n\<close> on a non-negative value.\<close>

definition shift_right :: "int \<Rightarrow> nat \<Rightarrow> int" where
  "shift_right x n = x div 2 ^ n"

subsection \<open>The integral overload\<close>

text \<open>
  \<^verbatim>\<open>for (size_t i = size_T-1; i > 0; i--)
  {
      uint8_t h = static_cast<uint8_t>(u_value >> 0 >> 8 * i);
      std::cout << static_cast<std::uint16_t>(h) << ".";
  }\<close>
  The first argument is the loop variable \<open>i\<close>. Where \<open>u_value\<close> has a type narrower
  than \<^verbatim>\<open>int\<close> it is promoted before the shift; the promotion keeps the value, and the
  shift count \<open>8 * i\<close> stays below the width.
\<close>

fun integral_loop :: "nat \<Rightarrow> int \<Rightarrow> ostream \<Rightarrow> ostream" where
  "integral_loop 0 u_value out = out"
| "integral_loop (Suc i) u_value out =
     (let h = static_cast uint8_t (shift_right (shift_right u_value 0) (8 * Suc i))
      in integral_loop i u_value (put_string ''.'' (put_uint16 (static_cast uint16_t h) out)))"

definition print_ip_integral :: "integral_type \<Rightarrow> int \<Rightarrow> ostream \<Rightarrow> failure + ostream" where
  "print_ip_integral T val out =
     (let size_T = sizeof T in
      case make_unsigned T of
        None \<Rightarrow> Inl (Build_Error (Incomplete_Type ''std::make_unsigned<bool>''))
      | Some uT \<Rightarrow>
          let u_value = static_cast uT val in
          if size_T = 1
          then Inr (endl (put_uint16 (static_cast uint16_t u_value) out))
          else
            let out1 = integral_loop (size_T - 1) u_value out;
                l = static_cast uint8_t u_value
            in Inr (endl (put_uint16 (static_cast uint16_t l) out1)))"

subsection \<open>The string overload\<close>

definition print_ip_string :: "string \<Rightarrow> ostream \<Rightarrow> failure + ostream" where
  "print_ip_string val out = Inr (endl (put_string val out))"

subsection \<open>The container overload\<close>

text \<open>
  A \<^verbatim>\<open>std::vector\<close> or \<^verbatim>\<open>std::list\<close> is the list of its elements. An iterator is
  a position in it: \<^verbatim>\<open>begin()\<close> is 0, \<^verbatim>\<open>end()\<close> is the length. The element type
  is a template parameter; \<open>shw\<close> is what \<^verbatim>\<open>std::cout << x\<close> writes for an element.
\<close>

definition begin_it :: "'a list \<Rightarrow> nat" where
  "begin_it container = 0"

definition end_it :: "'a list \<Rightarrow> nat" where
  "end_it container = length container"

text \<open>
  \<^verbatim>\<open>it--\<close>, the post-decrement of an iterator (of class type for both containers, so it
  applies to the temporary that \<^verbatim>\<open>end()\<close> returns): the value of the expression is
  the iterator as it was, and the operand moves one position back. The result is the
  pair of the two. Decrementing the iterator at the first position is undefined.
\<close>

definition post_decrement :: "nat \<Rightarrow> failure + (nat \<times> nat)" where
  "post_decrement it = (if it = 0 then Inl Undefined_Behaviour else Inr (it, it - 1))"

text \<open>\<^verbatim>\<open>*it\<close>: undefined at \<^verbatim>\<open>end()\<close> and beyond.\<close>

definition deref :: "'a list \<Rightarrow> nat \<Rightarrow> failure + 'a" where
  "deref container it =
     (if it < length container then Inr (container ! it) else Inl Undefined_Behaviour)"

text \<open>\<^verbatim>\<open>container.back()\<close>, the last element: undefined on an empty container.\<close>

definition back_of :: "'a list \<Rightarrow> failure + 'a" where
  "back_of container = (if container = [] then Inl Undefined_Behaviour else Inr (last container))"

text \<open>
  \<^verbatim>\<open>for (auto it = container.begin(); it != back_it; it++)
  {
      std::cout << *it << ".";
  }\<close>
\<close>

function container_loop ::
  "('a \<Rightarrow> string) \<Rightarrow> 'a list \<Rightarrow> nat \<Rightarrow> nat \<Rightarrow> ostream \<Rightarrow> failure + ostream" where
  "container_loop shw container it back_it out =
     (if it \<noteq> back_it
      then (case deref container it of
              Inl e \<Rightarrow> Inl e
            | Inr x \<Rightarrow>
                container_loop shw container (Suc it) back_it
                  (put_string ''.'' (put_string (shw x) out)))
      else Inr out)"
  by pat_completeness auto
termination
  by (relation "measure (\<lambda>(shw, container, it, back_it, out). length container - it)")
    (auto simp: deref_def split: if_splits)

declare container_loop.simps [simp del]

text \<open>
  The local \<^verbatim>\<open>back_it\<close> is initialised with the value of the expression
  \<^verbatim>\<open>container.end()--\<close>; the decremented temporary is dropped.
\<close>

definition print_ip_container :: "('a \<Rightarrow> string) \<Rightarrow> 'a list \<Rightarrow> ostream \<Rightarrow> failure + ostream" where
  "print_ip_container shw container out =
     (case post_decrement (end_it container) of
        Inl e \<Rightarrow> Inl e
      | Inr (back_it, moved) \<Rightarrow>
          (case container_loop shw container (begin_it container) back_it out of
             Inl e \<Rightarrow> Inl e
           | Inr out1 \<Rightarrow>
               (case back_of container of
                  Inl e \<Rightarrow> Inl e
                | Inr b \<Rightarrow> Inr (endl (put_string (shw b) out1)))))"

subsection \<open>The tuple overload\<close>

text \<open>
  The trait \<^verbatim>\<open>is_same_type<std::tuple<Types...>>\<close> is a computation on the list of the
  tuple's element types. The primary template is declared and never defined, so it has
  no \<^verbatim>\<open>value\<close> where no specialisation matches (\<open>None\<close>). Of the two specialisations
  for two or more types, the one that repeats \<^verbatim>\<open>Type\<close> is the more specialised and is
  chosen when the first two types are equal.
\<close>

fun is_same_type :: "'ty list \<Rightarrow> bool option" where
  "is_same_type [] = None"
| "is_same_type [T] = Some True"
| "is_same_type (T # T' # Ts) = (if T = T' then is_same_type (T # Ts) else Some False)"

text \<open>
  \<^verbatim>\<open>((std::cout << (index == 0 ? "" : ".") << std::get<index>(t)), ...);\<close>
  The fold over the comma operator runs the indices in increasing order. A tuple is the
  list of its elements; \<open>shw\<close> is what \<^verbatim>\<open>std::cout << x\<close> writes for an element.
\<close>

fun print_tuple_fold :: "('e \<Rightarrow> string) \<Rightarrow> nat \<Rightarrow> 'e list \<Rightarrow> ostream \<Rightarrow> ostream" where
  "print_tuple_fold shw index [] out = out"
| "print_tuple_fold shw index (x # t) out =
     print_tuple_fold shw (Suc index) t
       (put_string (shw x) (put_string (if index = 0 then [] else ''.'') out))"

definition print_tuple :: "('e \<Rightarrow> string) \<Rightarrow> 'e list \<Rightarrow> ostream \<Rightarrow> ostream" where
  "print_tuple shw t out = endl (print_tuple_fold shw 0 t out)"

text \<open>
  \<open>type_of\<close> gives the static type of an element. The \<^verbatim>\<open>static_assert\<close> is checked
  when the overload is instantiated: a tuple type that fails it has no call to run.
\<close>

definition print_ip_tuple ::
  "('e \<Rightarrow> 'ty) \<Rightarrow> ('e \<Rightarrow> string) \<Rightarrow> 'e list \<Rightarrow> ostream \<Rightarrow> failure + ostream" where
  "print_ip_tuple type_of shw val out =
     (case is_same_type (map type_of val) of
        None \<Rightarrow> Inl (Build_Error (Incomplete_Type ''is_same_type<std::tuple<>>''))
      | Some False \<Rightarrow> Inl (Build_Error (Static_Assertion ''Tuple has different types''))
      | Some True \<Rightarrow> Inr (print_tuple shw val out))"

subsection \<open>The rendering the specification describes\<close>

text \<open>Components joined by a dot.\<close>

fun dotted :: "string list \<Rightarrow> string" where
  "dotted [] = []"
| "dotted [x] = x"
| "dotted (x # y # ys) = x @ ''.'' @ dotted (y # ys)"

text \<open>The bit pattern of a signed integer of \<open>k\<close> bytes (two's complement), read as an
  unsigned integer of the same width.\<close>

definition reinterpret_unsigned :: "nat \<Rightarrow> int \<Rightarrow> int" where
  "reinterpret_unsigned k v = (if v < 0 then v + 2 ^ (8 * k) else v)"

text \<open>The \<open>k\<close> 8-bit groups of an unsigned value, most significant first.\<close>

fun byte_groups :: "nat \<Rightarrow> nat \<Rightarrow> nat list" where
  "byte_groups 0 u = []"
| "byte_groups (Suc k) u = byte_groups k (u div 256) @ [u mod 256]"

definition spec_format_integer :: "nat \<Rightarrow> int \<Rightarrow> string" where
  "spec_format_integer k v =
     dotted (map show_nat (byte_groups k (nat (reinterpret_unsigned k v))))"

section \<open>Auxiliary facts\<close>

subsection \<open>Joining and byte groups\<close>

lemma dotted_snoc: "dotted (xs @ [x]) = concat (map (\<lambda>y. y @ ''.'') xs) @ x"
  by (induction xs rule: dotted.induct) auto

lemma byte_groups_top: "byte_groups (Suc i) n = (n div 256 ^ i) mod 256 # byte_groups i n"
proof (induction i arbitrary: n)
  case 0
  show ?case by simp
next
  case (Suc i)
  have "byte_groups (Suc (Suc i)) n = byte_groups (Suc i) (n div 256) @ [n mod 256]"
    by simp
  also have "\<dots> = ((n div 256) div 256 ^ i) mod 256 # byte_groups i (n div 256) @ [n mod 256]"
    by (simp only: Suc.IH append_Cons)
  also have "\<dots> = (n div 256 ^ Suc i) mod 256 # byte_groups (Suc i) n"
    by (simp add: div_mult2_eq)
  finally show ?case .
qed

lemma high_byte:
  assumes "0 \<le> u"
  shows "nat (static_cast uint16_t (static_cast uint8_t (shift_right (shift_right u 0) (8 * j))))
         = (nat u div 256 ^ j) mod 256"
proof -
  have p: "(2::int) ^ (8 * j) = 256 ^ j"
    by (simp add: power_mult)
  have "static_cast uint16_t (static_cast uint8_t (shift_right (shift_right u 0) (8 * j)))
        = (u div 256 ^ j) mod 256"
    by (simp add: static_cast_def shift_right_def p)
  moreover have "nat ((u div 256 ^ j) mod 256) = (nat u div 256 ^ j) mod 256"
  proof -
    obtain n where u: "u = int n"
      using assms by (metis nat_0_le)
    have "(int n div 256 ^ j) mod 256 = int ((n div 256 ^ j) mod 256)"
      by (simp add: zdiv_int zmod_int)
    then show ?thesis
      unfolding u by (simp only: nat_int)
  qed
  ultimately show ?thesis by simp
qed

lemma integral_loop_bytes:
  assumes "0 \<le> u"
  shows "integral_loop i u out
         = out @ concat (map (\<lambda>b. show_nat b @ ''.'') (byte_groups i (nat u div 256)))"
proof (induction i arbitrary: out)
  case 0
  show ?case by simp
next
  case (Suc i)
  have d: "nat u div 256 ^ Suc i = (nat u div 256) div 256 ^ i"
    by (simp add: div_mult2_eq)
  show ?case
    unfolding integral_loop.simps Let_def Suc.IH byte_groups_top put_string_def put_uint16_def
      high_byte [OF assms] d
    by simp
qed

lemma reinterpret_unsigned_mod:
  assumes "0 < k" and "- (2 ^ (8 * k - 1)) \<le> v" and "v < 2 ^ (8 * k - 1)"
  shows "reinterpret_unsigned k v = v mod 2 ^ (8 * k)"
proof -
  have "8 * k = Suc (8 * k - 1)"
    using assms(1) by simp
  then have m: "(2::int) ^ (8 * k) = 2 * 2 ^ (8 * k - 1)"
    by (metis power_Suc)
  show ?thesis
  proof (cases "v < 0")
    case True
    have "v mod 2 ^ (8 * k) = (v + 2 ^ (8 * k)) mod 2 ^ (8 * k)"
      by simp
    also have "\<dots> = v + 2 ^ (8 * k)"
      using assms(2,3) m True by (intro mod_pos_pos_trivial) linarith+
    finally show ?thesis
      using True by (simp add: reinterpret_unsigned_def)
  next
    case False
    have "v mod 2 ^ (8 * k) = v"
      using assms(3) m False by (intro mod_pos_pos_trivial) linarith+
    then show ?thesis
      using False by (simp add: reinterpret_unsigned_def)
  qed
qed

lemma print_ip_integral_bytes:
  assumes "0 < k" and "kind \<noteq> Bool_kind"
  shows "print_ip_integral (Integral kind k) v out
         = Inr (out @ dotted (map show_nat (byte_groups k (nat (v mod 2 ^ (8 * k))))) @ newline)"
proof -
  obtain i where k: "k = Suc i"
    using assms(1) by (cases k) auto
  define u where "u = v mod 2 ^ (8 * k)"
  have u0: "0 \<le> u"
    by (simp add: u_def)
  have mu: "make_unsigned (Integral kind k) = Some (Integral Unsigned_kind k)"
    using assms(2) by (cases kind) simp_all
  have low: "nat (static_cast uint16_t (static_cast uint8_t u)) = nat u mod 256"
    using high_byte [OF u0, of 0] by (simp add: shift_right_def)
  have groups: "dotted (map show_nat (byte_groups (Suc i) (nat u)))
        = concat (map (\<lambda>b. show_nat b @ ''.'') (byte_groups i (nat u div 256))) @ show_nat (nat u mod 256)"
    by (simp add: dotted_snoc comp_def)
  show ?thesis
  proof (cases "k = 1")
    case True
    have "u < 256"
      using True by (simp add: u_def)
    then have "static_cast uint16_t u = u"
      using u0 by (simp add: static_cast_def)
    moreover have "nat u mod 256 = nat u"
      using \<open>u < 256\<close> u0 by simp
    ultimately show ?thesis
      using True mu
      by (simp add: print_ip_integral_def static_cast_def u_def [symmetric] endl_def put_uint16_def)
  next
    case False
    have "print_ip_integral (Integral kind k) v out
          = Inr (endl (put_uint16 (static_cast uint16_t (static_cast uint8_t u))
                  (integral_loop (k - 1) u out)))"
      using False mu
      by (simp add: print_ip_integral_def Let_def static_cast_def [of "Integral Unsigned_kind k"] u_def)
    also have "\<dots> = Inr (integral_loop i u out @ show_nat (nat u mod 256) @ newline)"
      by (simp only: k diff_Suc_1 endl_def put_uint16_def low append_assoc)
    also have "\<dots> = Inr (out @ dotted (map show_nat (byte_groups (Suc i) (nat u))) @ newline)"
      by (simp only: integral_loop_bytes [OF u0] groups append_assoc)
    finally show ?thesis
      by (simp only: k u_def)
  qed
qed

subsection \<open>Evaluation on numerals\<close>

lemma show_nat_digit: "n < 10 \<Longrightarrow> show_nat n = [digit_char n]"
  by (simp add: show_nat.simps)

lemma show_nat_more: "10 \<le> n \<Longrightarrow> show_nat n = show_nat (n div 10) @ [digit_char (n mod 10)]"
  by (subst show_nat.simps) simp

lemma digit_char_eval:
  "digit_char 0 = CHR ''0''" "digit_char 1 = CHR ''1''" "digit_char 2 = CHR ''2''"
  "digit_char 3 = CHR ''3''" "digit_char 4 = CHR ''4''" "digit_char 5 = CHR ''5''"
  "digit_char 6 = CHR ''6''" "digit_char 7 = CHR ''7''" "digit_char 8 = CHR ''8''"
  "digit_char 9 = CHR ''9''" "digit_char (Suc 0) = CHR ''1''"
  by (simp_all add: digit_char_def)

lemma byte_groups_pos: "0 < k \<Longrightarrow> byte_groups k u = byte_groups (k - 1) (u div 256) @ [u mod 256]"
  by (cases k) simp_all

lemma integral_loop_pos:
  "0 < i \<Longrightarrow> integral_loop i u out =
     integral_loop (i - 1) u
       (put_string ''.'' (put_uint16 (static_cast uint16_t (static_cast uint8_t (shift_right (shift_right u 0) (8 * i)))) out))"
  by (cases i) (simp_all add: Let_def)

lemmas eval_simps = show_nat_digit show_nat_more digit_char_eval byte_groups_pos integral_loop_pos

lemma show_int_eval: "show_int (numeral n) = show_nat (numeral n)" "show_int 0 = show_nat 0"
  by (simp_all add: show_int_def)

subsection \<open>The container loop\<close>

lemma container_loop_end:
  assumes "it \<le> length c"
  shows "container_loop shw c it (length c) out
         = Inr (out @ concat (map (\<lambda>x. shw x @ ''.'') (drop it c)))"
  using assms
proof (induction "length c - it" arbitrary: it out)
  case 0
  then have "it = length c" by simp
  then show ?case
    by (simp add: container_loop.simps)
next
  case (Suc n)
  then have lt: "it < length c" by simp
  have d: "drop it c = c ! it # drop (Suc it) c"
    using lt by (simp add: Cons_nth_drop_Suc)
  have "container_loop shw c it (length c) out
        = container_loop shw c (Suc it) (length c) (out @ shw (c ! it) @ ''.'')"
    using lt by (subst container_loop.simps) (simp add: deref_def put_string_def)
  also have "\<dots> = Inr ((out @ shw (c ! it) @ ''.'') @ concat (map (\<lambda>x. shw x @ ''.'') (drop (Suc it) c)))"
    using Suc.hyps(2) lt by (intro Suc.hyps(1)) simp_all
  finally show ?case
    by (simp add: d)
qed

lemma print_ip_container_nonempty:
  assumes "c \<noteq> []"
  shows "print_ip_container shw c out = Inr (out @ dotted (map shw (c @ [last c])) @ newline)"
proof -
  have "post_decrement (end_it c) = Inr (length c, length c - 1)"
    using assms by (simp add: post_decrement_def end_it_def)
  moreover have "container_loop shw c (begin_it c) (length c) out
        = Inr (out @ concat (map (\<lambda>x. shw x @ ''.'') c))"
    using container_loop_end [of 0 c shw out] by (simp add: begin_it_def)
  moreover have "back_of c = Inr (last c)"
    using assms by (simp add: back_of_def)
  moreover have "dotted (map shw (c @ [last c])) = concat (map (\<lambda>x. shw x @ ''.'') c) @ shw (last c)"
    by (simp add: dotted_snoc comp_def)
  ultimately show ?thesis
    by (simp add: print_ip_container_def endl_def put_string_def)
qed

subsection \<open>Tuples\<close>

lemma is_same_type_eq:
  "is_same_type tys = (if tys = [] then None else Some (\<forall>t \<in> set tys. t = hd tys))"
  by (induction tys rule: is_same_type.induct) auto

lemma dotted_Cons: "dotted (x # xs) = x @ concat (map (\<lambda>y. ''.'' @ y) xs)"
  by (induction xs arbitrary: x) simp_all

lemma print_tuple_fold_dotted:
  "print_tuple_fold shw index t out
   = out @ (if index = 0 then dotted (map shw t) else concat (map (\<lambda>x. ''.'' @ shw x) t))"
proof (induction t arbitrary: index out)
  case Nil
  show ?case by simp
next
  case (Cons x t)
  show ?case
    by (simp add: Cons.IH put_string_def dotted_Cons comp_def del: dotted.simps)
qed

lemma print_ip_tuple_same:
  assumes "val \<noteq> []" and "\<forall>x \<in> set val. type_of x = T"
  shows "print_ip_tuple type_of shw val out = Inr (out @ dotted (map shw val) @ newline)"
proof -
  have h: "hd (map type_of val) = type_of (hd val)"
    using assms(1) by (rule hd_map)
  have "\<forall>t \<in> set (map type_of val). t = hd (map type_of val)"
    unfolding h using assms by (metis (no_types, lifting) imageE list.set_map hd_in_set)
  then have a: "(\<forall>t \<in> set (map type_of val). t = hd (map type_of val)) = True"
    by (rule eqTrueI)
  have ne: "(map type_of val = []) = False"
    using assms(1) by simp
  have "is_same_type (map type_of val) = Some True"
    by (simp only: is_same_type_eq a ne if_False)
  then show ?thesis
    by (simp add: print_ip_tuple_def print_tuple_def endl_def print_tuple_fold_dotted)
qed

lemma print_ip_tuple_mixed:
  assumes "a \<in> set val" and "b \<in> set val" and "type_of a \<noteq> type_of b"
  shows "print_ip_tuple type_of shw val out = Inl (Build_Error (Static_Assertion ''Tuple has different types''))"
proof -
  have ne: "val \<noteq> []"
    using assms(1) by auto
  have "\<not> (\<forall>t \<in> set (map type_of val). t = hd (map type_of val))"
    using assms by (metis image_eqI list.set_map)
  then have "is_same_type (map type_of val) = Some False"
    using ne by (simp add: is_same_type_eq)
  then show ?thesis
    by (simp add: print_ip_tuple_def)
qed

section \<open>Properties\<close>

text \<open>
  Claim C1. For every signed integer of width 1, 2, 4 or 8 bytes, the integral overload
  writes the line that the specification describes: the two's complement bit pattern
  read as an unsigned integer of the same width, split into 8-bit groups from the most
  to the least significant byte, each group in decimal, joined by dots. A width-1
  integer is written as its single unsigned decimal value with no separator. The line
  ends with the terminator of \<^verbatim>\<open>std::endl\<close>.
\<close>

theorem print_ip_integral_signed:
  assumes "k \<in> {1, 2, 4, 8}" and "- (2 ^ (8 * k - 1)) \<le> v" and "v < 2 ^ (8 * k - 1)"
  shows "print_ip_integral (Integral Signed_kind k) v out
           = Inr (out @ spec_format_integer k v @ newline)
         \<and> (k = 1 \<longrightarrow> print_ip_integral (Integral Signed_kind k) v out
               = Inr (out @ show_nat (nat (reinterpret_unsigned 1 v)) @ newline))"
proof -
  have k: "0 < k"
    using assms(1) by auto
  have r: "reinterpret_unsigned k v = v mod 2 ^ (8 * k)"
    using k assms(2,3) by (rule reinterpret_unsigned_mod)
  have main: "print_ip_integral (Integral Signed_kind k) v out
      = Inr (out @ spec_format_integer k v @ newline)"
    unfolding spec_format_integer_def r
    by (rule print_ip_integral_bytes [OF k]) simp
  have "spec_format_integer 1 v = show_nat (nat (reinterpret_unsigned 1 v))" if "k = 1"
  proof -
    have "reinterpret_unsigned 1 v = v mod 256"
      using r that by simp
    then show ?thesis
      by (simp add: spec_format_integer_def nat_mod_distrib)
  qed
  with main show ?thesis
    by auto
qed

text \<open>The examples of the source's documentation, obtained from the theorem.\<close>

theorem print_ip_integral_signed_witness:
  "print_ip_integral (Integral Signed_kind 1) (- 1) [] = Inr (''255'' @ newline)
   \<and> print_ip_integral (Integral Signed_kind 2) 0 [] = Inr (''0.0'' @ newline)
   \<and> print_ip_integral (Integral Signed_kind 4) 2130706433 [] = Inr (''127.0.0.1'' @ newline)
   \<and> print_ip_integral (Integral Signed_kind 8) 8875824491850138409 []
       = Inr (''123.45.67.89.101.112.131.41'' @ newline)"
  using print_ip_integral_signed [of 1 "- 1" "[]"] print_ip_integral_signed [of 2 0 "[]"]
    print_ip_integral_signed [of 4 2130706433 "[]"]
    print_ip_integral_signed [of 8 8875824491850138409 "[]"]
  by (simp add: spec_format_integer_def reinterpret_unsigned_def eval_simps)

text \<open>
  Claim C2. The claim is that a sequence is written as exactly its elements, in order,
  joined by dots, so that the vector 100, 200, 300, 400 gives \<open>100.200.300.400\<close>, as
  the comment in \<^verbatim>\<open>main\<close> says. The code writes the last element twice: for that
  vector of \<^verbatim>\<open>int\<close> the line is \<open>100.200.300.400.400\<close>.
\<close>

theorem print_ip_container_vector_example:
  "print_ip_container show_int [100, 200, 300, 400] []
   = Inr (''100.200.300.400.400'' @ newline)"
  by (simp add: print_ip_container_def post_decrement_def end_it_def begin_it_def back_of_def
      container_loop.simps deref_def put_string_def endl_def show_int_eval eval_simps)

text \<open>
  Claim C3. For every non-empty vector or list of length \<open>n\<close> the container overload
  writes \<open>n + 1\<close> components joined by dots: the \<open>n\<close> elements in order, then the last
  element once more. (\<^verbatim>\<open>container.end()--\<close> has the value of \<^verbatim>\<open>end()\<close>, so the loop runs
  over all elements and \<^verbatim>\<open>back()\<close> is written after them.)
\<close>

theorem print_ip_container_extra_last:
  assumes "container \<noteq> []"
  shows "print_ip_container shw container out
           = Inr (out @ dotted (map shw (container @ [last container])) @ newline)
         \<and> length (map shw (container @ [last container])) = length container + 1"
  using print_ip_container_nonempty [OF assms] by simp

theorem print_ip_container_extra_last_witness:
  "print_ip_container show_int [400, 300, 200, 100] []
   = Inr (''400.300.200.100.100'' @ newline)"
  using print_ip_container_extra_last [of "[400, 300, 200, 100]" show_int "[]"]
  by (simp add: show_int_eval eval_simps)

text \<open>
  Claim C4. The claim is that an empty sequence is rejected with an explicit
  \<open>EmptyInputError\<close> and that nothing is read past the end. The code has no such
  check: on an empty container it decrements \<^verbatim>\<open>end()\<close> and calls \<^verbatim>\<open>back()\<close>, both
  undefined there.
\<close>

theorem print_ip_container_empty:
  "print_ip_container shw [] out = Inl Undefined_Behaviour"
  by (simp add: print_ip_container_def post_decrement_def end_it_def)

text \<open>
  Claim C5, as amended. For every non-empty tuple whose elements all have one static
  type \<open>T\<close>, the tuple overload writes the elements in declared order, joined by dots,
  as one line.
\<close>

theorem print_ip_tuple_homogeneous:
  assumes "val \<noteq> []" and "\<forall>x \<in> set val. type_of x = T"
  shows "print_ip_tuple type_of shw val out = Inr (out @ dotted (map shw val) @ newline)"
  using assms by (rule print_ip_tuple_same)

theorem print_ip_tuple_homogeneous_witness:
  "print_ip_tuple (\<lambda>x::int. ''int'') show_int [123, 456, 789, 0] []
   = Inr (''123.456.789.0'' @ newline)"
  using print_ip_tuple_homogeneous
    [where val = "[123, 456, 789, 0]" and type_of = "\<lambda>x::int. ''int''" and T = "''int''"
       and shw = show_int and out = "[]"]
  by (simp add: show_int_eval eval_simps)

text \<open>
  The claim as written covers the empty tuple, whose elements trivially share a type:
  the overload does not build for it, so nothing is rendered.
\<close>

theorem print_ip_tuple_empty_counterexample:
  "\<not> (\<exists>out'. print_ip_tuple (\<lambda>x::int. ''int'') show_int [] [] = Inr out')"
  by (simp add: print_ip_tuple_def)

text \<open>
  Claim C6. For every tuple with two elements of different static types, the tuple
  overload is rejected when it is built: the static assertion fires with the message
  \<open>Tuple has different types\<close>, whatever the stream holds, and no output is produced.
\<close>

theorem print_ip_tuple_mixed_rejected:
  assumes "a \<in> set val" and "b \<in> set val" and "type_of a \<noteq> type_of b"
  shows "print_ip_tuple type_of shw val out
         = Inl (Build_Error (Static_Assertion ''Tuple has different types''))"
  using assms by (rule print_ip_tuple_mixed)

text \<open>A tuple of an \<^verbatim>\<open>int\<close> and a \<^verbatim>\<open>std::string\<close>.\<close>

theorem print_ip_tuple_mixed_rejected_witness:
  "print_ip_tuple (case_sum (\<lambda>x::int. ''int'') (\<lambda>s::string. ''std::string''))
     (case_sum show_int (\<lambda>s. s)) [Inl 1, Inr ''a''] []
   = Inl (Build_Error (Static_Assertion ''Tuple has different types''))"
  using print_ip_tuple_mixed_rejected
    [where a = "Inl 1" and b = "Inr ''a''" and val = "[Inl 1, Inr ''a'']"
       and type_of = "case_sum (\<lambda>x::int. ''int'') (\<lambda>s::string. ''std::string'')"
       and shw = "case_sum show_int (\<lambda>s. s)" and out = "[]"]
  by simp

text \<open>
  Claim C7. For every string \<open>s\<close> the string overload writes \<open>s\<close> itself, unchanged,
  as one line: the text of the line is \<open>s\<close>, followed by the terminator of
  \<^verbatim>\<open>std::endl\<close>. In particular the line for \<open>Hello, World!\<close> is \<open>Hello, World!\<close>.
\<close>

theorem print_ip_string_verbatim:
  "print_ip_string s out = Inr (out @ s @ newline)
   \<and> print_ip_string ''Hello, World!'' [] = Inr (''Hello, World!'' @ newline)"
  by (simp add: print_ip_string_def endl_def put_string_def)

text \<open>
  Claim C8. The tuple overload is rejected for the empty tuple when it is built: no
  specialisation of \<^verbatim>\<open>is_same_type\<close> covers \<^verbatim>\<open>std::tuple<>\<close>, so the static assertion
  names the \<^verbatim>\<open>value\<close> of an incomplete type.
\<close>

theorem print_ip_tuple_empty_rejected:
  "is_same_type (map type_of []) = None
   \<and> print_ip_tuple type_of shw [] out
       = Inl (Build_Error (Incomplete_Type ''is_same_type<std::tuple<>>''))"
  by (simp add: print_ip_tuple_def)

text \<open>
  Claim C9, as amended. The integral overload accepts every integral type other than
  \<^verbatim>\<open>bool\<close>, signed, unsigned or character, of any size \<open>k\<close>: it writes the \<open>k\<close> bytes
  of the value converted to the unsigned type of that size, most significant first, in
  decimal and joined by dots. A width-1 value, a \<^verbatim>\<open>char\<close> included, is written as a
  decimal number, not as a character.
\<close>

theorem print_ip_integral_every_kind:
  assumes "kind \<noteq> Bool_kind" and "0 < k"
  shows "print_ip_integral (Integral kind k) v out
           = Inr (out @ dotted (map show_nat (byte_groups k (nat (v mod 2 ^ (8 * k))))) @ newline)
         \<and> (k = 1 \<longrightarrow> print_ip_integral (Integral kind k) v out
               = Inr (out @ show_nat (nat (v mod 256)) @ newline))"
proof -
  have main: "print_ip_integral (Integral kind k) v out
      = Inr (out @ dotted (map show_nat (byte_groups k (nat (v mod 2 ^ (8 * k))))) @ newline)"
    using assms(2,1) by (rule print_ip_integral_bytes)
  have "dotted (map show_nat (byte_groups k (nat (v mod 2 ^ (8 * k))))) = show_nat (nat (v mod 256))"
    if "k = 1"
    using that by (simp add: nat_mod_distrib)
  with main show ?thesis
    by auto
qed

text \<open>The \<^verbatim>\<open>char\<close> \<open>A\<close> (code 65) and the \<^verbatim>\<open>unsigned int\<close> 3232235777.\<close>

theorem print_ip_integral_every_kind_witness:
  "print_ip_integral (Integral Char_kind 1) 65 [] = Inr (''65'' @ newline)
   \<and> print_ip_integral (Integral Unsigned_kind 4) 3232235777 [] = Inr (''192.168.1.1'' @ newline)"
  using print_ip_integral_every_kind [of Char_kind 1 65 "[]"]
    print_ip_integral_every_kind [of Unsigned_kind 4 3232235777 "[]"]
  by (simp add: eval_simps)

text \<open>
  The claim as written includes \<^verbatim>\<open>bool\<close>: the overload is selected for it, but its
  body names \<^verbatim>\<open>std::make_unsigned_t<bool>\<close> and does not build.
\<close>

theorem print_ip_integral_bool_counterexample:
  "\<not> (\<exists>out'. print_ip_integral (Integral Bool_kind 1) 1 [] = Inr out')"
  by (simp add: print_ip_integral_def)

end
